theory Spec2Isabelle
  imports Complex_Main
begin

section \<open>Data model (src/types.ts and the state bundle of src/components/GameCanvas.tsx)\<close>

text \<open>
  JavaScript numbers are modelled as mathematical reals: rounding is outside the model.
  Where the source's outcome depends on a NaN (a division of zero by zero), the branch
  is written out in the definition, since HOL's \<open>x / 0 = 0\<close> is not what the code does.

  The fields \<open>x\<close> and \<open>y\<close> occur in four object types of the source; each is prefixed
  here by the initial of its type (\<open>px\<close> of a Point, \<open>vx\<close> of a terrain vertex, \<open>ex\<close> of an
  Entity, \<open>fx\<close> of the flower, \<open>cx\<close> of the camera). The Stick field \<open>length\<close> is
  \<open>length_stick\<close>.
\<close>

datatype GameStatus = MENU | PLAYING | WON | DEAD

record Point =
  px :: real
  py :: real
  oldx :: real
  oldy :: real
  mass :: real
  radius :: real
  isWheel :: bool
  pinned :: bool
  rotation :: real

text \<open>
  Points are objects shared by reference between \<open>state.points\<close>, \<open>state.bike\<close> and the
  sticks. A reference is an address (a natural number) into the store \<open>heap\<close> of the
  state; two references are the same object exactly when the addresses are equal.
\<close>

type_synonym ref = nat

record Stick =
  p1 :: ref
  p2 :: ref
  length_stick :: real
  stiffness :: real
  visible :: bool
  width :: real

record Entity =
  ex :: real
  ey :: real
  r :: "real option"
  collected :: "bool option"

record Bike =
  rw :: ref
  fw :: ref
  body :: ref
  head :: ref
  handle :: ref

record InputState =
  up :: bool
  down :: bool
  left :: bool
  right :: bool
  space :: bool
  enter :: bool

record Vertex =
  vx :: real
  vy :: real

record Flower =
  fx :: real
  fy :: real
  unlocked :: bool

record Camera =
  cx :: real
  cy :: real

record state =
  points :: "ref list"
  heap :: "ref \<Rightarrow> Point"
  sticks :: "Stick list"
  terrain :: "Vertex list"
  apples :: "Entity list"
  killers :: "Entity list"
  flower :: Flower
  bike :: Bike
  keys :: InputState
  status :: GameStatus
  camera :: Camera

text \<open>
  The module \<open>../constants\<close> is not part of the sources at hand: the constants \<open>PHYSICS\<close>
  and \<open>GAME_CONFIG\<close> that the code reads are a parameter of every operation using them.
\<close>

record constants =
  GRAVITY :: real
  FRICTION :: real
  WHEEL_SPEED :: real
  BIKE_TORQUE :: real
  GROUND_FRICTION :: real
  SUSPENSION_STIFFNESS :: real
  RIGID_STIFFNESS :: real
  ITERATIONS :: nat
  TERRAIN_SEGMENTS :: nat

datatype error = TypeError

section \<open>Helpers\<close>

definition hypot :: "real \<Rightarrow> real \<Rightarrow> real" where
  "hypot a b = sqrt (a * a + b * b)"

definition modify :: "ref \<Rightarrow> (Point \<Rightarrow> Point) \<Rightarrow> state \<Rightarrow> state" where
  "modify a f s = s\<lparr>heap := (heap s)(a := f (heap s a))\<rparr>"

definition createPoint :: "real \<Rightarrow> real \<Rightarrow> real \<Rightarrow> real \<Rightarrow> bool \<Rightarrow> Point" where
  "createPoint a b m rad w =
     \<lparr>px = a, py = b, oldx = a, oldy = b, mass = m, radius = rad, isWheel = w,
      pinned = False, rotation = 0\<rparr>"

definition createStick ::
  "(ref \<Rightarrow> Point) \<Rightarrow> ref \<Rightarrow> ref \<Rightarrow> real option \<Rightarrow> real \<Rightarrow> bool \<Rightarrow> real \<Rightarrow> Stick" where
  "createStick h a b len stf vis wid =
     \<lparr>p1 = a, p2 = b,
      length_stick =
        (case len of
           None \<Rightarrow> hypot (px (h b) - px (h a)) (py (h b) - py (h a))
         | Some l \<Rightarrow> if l = 0 then hypot (px (h b) - px (h a)) (py (h b) - py (h a)) else l),
      stiffness = stf, visible = vis, width = wid\<rparr>"

section \<open>The status machine: die and win\<close>

definition die :: "state \<Rightarrow> state" where
  "die s = (if status s = PLAYING then s\<lparr>status := DEAD\<rparr> else s)"

definition win :: "state \<Rightarrow> state" where
  "win s = (if status s = PLAYING then s\<lparr>status := WON\<rparr> else s)"

section \<open>updatePhysics: controls, Verlet integration, stick constraints\<close>

definition applyControls :: "constants \<Rightarrow> state \<Rightarrow> state" where
  "applyControls P s0 =
     (let s1 = (if up (keys s0)
                then modify (rw (bike s0)) (\<lambda>p. p\<lparr>oldx := oldx p - WHEEL_SPEED P\<rparr>) s0
                else s0);
          s2 = (if down (keys s1)
                then modify (rw (bike s1)) (\<lambda>p. p\<lparr>oldx := oldx p + WHEEL_SPEED P * 0.5\<rparr>) s1
                else s1);
          torqueForce = BIKE_TORQUE P;
          s3 = (if left (keys s2)
                then modify (handle (bike s2)) (\<lambda>p. p\<lparr>px := px p - torqueForce\<rparr>)
                       (modify (rw (bike s2)) (\<lambda>p. p\<lparr>py := py p + torqueForce\<rparr>)
                          (modify (fw (bike s2)) (\<lambda>p. p\<lparr>py := py p - torqueForce\<rparr>) s2))
                else s2);
          s4 = (if right (keys s3)
                then modify (handle (bike s3)) (\<lambda>p. p\<lparr>px := px p + torqueForce\<rparr>)
                       (modify (rw (bike s3)) (\<lambda>p. p\<lparr>py := py p - torqueForce\<rparr>)
                          (modify (fw (bike s3)) (\<lambda>p. p\<lparr>py := py p + torqueForce\<rparr>) s3))
                else s3);
          s5 = (if space (keys s4)
                then modify (fw (bike s4)) (\<lambda>p. p\<lparr>oldx := oldx p + 1\<rparr>)
                       (modify (rw (bike s4)) (\<lambda>p. p\<lparr>oldx := oldx p - 1\<rparr>)
                          (modify (body (bike s4)) (\<lambda>p. p\<lparr>py := py p - 2\<rparr>) s4))
                else s4)
      in s5)"

definition integratePoint :: "constants \<Rightarrow> Point \<Rightarrow> Point" where
  "integratePoint P p =
     (if pinned p then p
      else
        (let velx = (px p - oldx p) * FRICTION P;
             vely = (py p - oldy p) * FRICTION P
         in p\<lparr>oldx := px p, oldy := py p, px := px p + velx, py := py p + (vely + GRAVITY P)\<rparr>))"

definition integrate :: "constants \<Rightarrow> state \<Rightarrow> state" where
  "integrate P s = fold (\<lambda>a. modify a (integratePoint P)) (points s) s"

definition relaxStick :: "Stick \<Rightarrow> state \<Rightarrow> state" where
  "relaxStick stick s =
     (let dx = px (heap s (p2 stick)) - px (heap s (p1 stick));
          dy = py (heap s (p2 stick)) - py (heap s (p1 stick));
          dist = hypot dx dy
      in if dist = 0 then s
         else
           (let diff = (length_stick stick - dist) / dist * stiffness stick;
                ox = dx * diff * 0.5;
                oy = dy * diff * 0.5;
                s1 = (if \<not> pinned (heap s (p1 stick))
                      then modify (p1 stick) (\<lambda>p. p\<lparr>px := px p - ox, py := py p - oy\<rparr>) s
                      else s);
                s2 = (if \<not> pinned (heap s1 (p2 stick))
                      then modify (p2 stick) (\<lambda>p. p\<lparr>px := px p + ox, py := py p + oy\<rparr>) s1
                      else s1)
            in s2))"

definition relaxSticks :: "state \<Rightarrow> state" where
  "relaxSticks s = fold relaxStick (sticks s) s"

section \<open>checkCollisions\<close>

text \<open>
  One point against one terrain segment (the body of the inner loop). The Boolean of the
  result says that the source executed \<open>return\<close>, which leaves \<open>checkCollisions\<close>.

  A segment of zero length makes the projection parameter \<open>0 / 0\<close>, a NaN that survives
  \<open>Math.min\<close> and \<open>Math.max\<close> and makes \<open>dist < p.radius\<close> false: no collision.
  \<open>dx / dist || 0\<close> and \<open>dy / dist || -1\<close> take the right operand when the quotient is
  NaN (\<open>dist = 0\<close>) or zero.
\<close>

definition collideSegment :: "constants \<Rightarrow> ref \<Rightarrow> Vertex \<Rightarrow> Vertex \<Rightarrow> state \<Rightarrow> bool \<times> state" where
  "collideSegment P a v1 v2 s =
     (let p = heap s a
      in if px p < min (vx v1) (vx v2) - 50 \<or> px p > max (vx v1) (vx v2) + 50 then (False, s)
         else
           (let sx = vx v2 - vx v1;
                sy = vy v2 - vy v1;
                ppx = px p - vx v1;
                ppy = py p - vy v1
            in if sx * sx + sy * sy = 0 then (False, s)
               else
                 (let t = max 0 (min 1 ((ppx * sx + ppy * sy) / (sx * sx + sy * sy)));
                      closestX = vx v1 + t * sx;
                      closestY = vy v1 + t * sy;
                      dx = px p - closestX;
                      dy = py p - closestY;
                      dist = hypot dx dy
                  in if dist < radius p
                     then
                       (if a = head (bike s) \<and> dist < radius p * 0.8 then (True, die s)
                        else
                          (let overlap = radius p - dist;
                               nx = (if dist = 0 \<or> dx / dist = 0 then 0 else dx / dist);
                               ny = (if dist = 0 \<or> dy / dist = 0 then - 1 else dy / dist);
                               q = p\<lparr>px := px p + nx * overlap, py := py p + ny * overlap\<rparr>;
                               velx = px q - oldx q;
                               vely = py q - oldy q;
                               dot = velx * (- ny) + vely * nx;
                               q2 = q\<lparr>oldx := oldx q + (- ny) * dot * (1 - GROUND_FRICTION P),
                                      oldy := oldy q + nx * dot * (1 - GROUND_FRICTION P)\<rparr>;
                               q3 = (if isWheel q2
                                     then (let speed = hypot velx vely;
                                               dir = (if dot > 0 then 1 else - 1)
                                           in q2\<lparr>rotation := rotation q2 + speed * dir * 0.2\<rparr>)
                                     else q2)
                           in (False, modify a (\<lambda>_. q3) s)))
                     else (False, s))))"

fun segments :: "Vertex list \<Rightarrow> (Vertex \<times> Vertex) list" where
  "segments (v1 # v2 # vs) = (v1, v2) # segments (v2 # vs)"
| "segments _ = []"

fun collideSegments :: "constants \<Rightarrow> ref \<Rightarrow> (Vertex \<times> Vertex) list \<Rightarrow> state \<Rightarrow> bool \<times> state" where
  "collideSegments P a [] s = (False, s)"
| "collideSegments P a ((v1, v2) # segs) s =
     (case collideSegment P a v1 v2 s of
        (True, s') \<Rightarrow> (True, s')
      | (False, s') \<Rightarrow> collideSegments P a segs s')"

fun collidePoints :: "constants \<Rightarrow> ref list \<Rightarrow> state \<Rightarrow> state" where
  "collidePoints P [] s = s"
| "collidePoints P (a # as) s =
     (case collideSegments P a (segments (terrain s)) s of
        (True, s') \<Rightarrow> s'
      | (False, s') \<Rightarrow> collidePoints P as s')"

text \<open>
  \<open>s.terrain[0].y\<close> on an empty terrain reads a property of \<open>undefined\<close>: a TypeError.
\<close>

definition checkCollisions :: "constants \<Rightarrow> state \<Rightarrow> error + state" where
  "checkCollisions P s =
     (case terrain s of
        [] \<Rightarrow> Inl TypeError
      | v0 # _ \<Rightarrow>
          Inr (collidePoints P (points s)
                 (if py (heap s (head (bike s))) > vy v0 + 2000 then die s else s)))"

section \<open>checkGameplay\<close>

definition bikeParts :: "state \<Rightarrow> Point list" where
  "bikeParts s =
     [heap s (rw (bike s)), heap s (fw (bike s)), heap s (body (bike s)), heap s (head (bike s))]"

definition isCollected :: "Entity \<Rightarrow> bool" where
  "isCollected a = (collected a = Some True)"

definition collectApple :: "Point list \<Rightarrow> Entity \<Rightarrow> Entity" where
  "collectApple parts a =
     (if \<not> isCollected a
      then (if list_ex (\<lambda>part. hypot (px part - ex a) (py part - ey a) < 35) parts
            then a\<lparr>collected := Some True\<rparr> else a)
      else a)"

text \<open>\<open>collectedCount\<close> is incremented in the else branch: for the apples found collected.\<close>

definition collectedCount :: "state \<Rightarrow> nat" where
  "collectedCount s = length (filter isCollected (apples s))"

definition killerRadius :: "Entity \<Rightarrow> real" where
  "killerRadius k = (case r k of None \<Rightarrow> 15 | Some v \<Rightarrow> if v = 0 then 15 else v)"

definition checkFlower :: "nat \<Rightarrow> state \<Rightarrow> state" where
  "checkFlower cnt s =
     (if cnt = length (apples s)
      then fold (\<lambda>part t.
                   if hypot (px part - fx (flower t)) (py part - fy (flower t)) < 35
                   then win t else t)
             (bikeParts s) (s\<lparr>flower := (flower s)\<lparr>unlocked := True\<rparr>\<rparr>)
      else s)"

definition checkKillers :: "state \<Rightarrow> state" where
  "checkKillers s =
     fold (\<lambda>k. fold (\<lambda>p t. if hypot (px p - ex k) (py p - ey k) < killerRadius k + radius p
                             then die t else t) (bikeParts s))
       (killers s) s"

definition checkGameplay :: "state \<Rightarrow> state" where
  "checkGameplay s =
     (let cnt = collectedCount s;
          s1 = s\<lparr>apples := map (collectApple (bikeParts s)) (apples s)\<rparr>
      in checkKillers (checkFlower cnt s1))"

section \<open>updatePhysics\<close>

fun relaxCollide :: "constants \<Rightarrow> nat \<Rightarrow> state \<Rightarrow> error + state" where
  "relaxCollide P 0 s = Inr s"
| "relaxCollide P (Suc n) s =
     (case checkCollisions P (relaxSticks s) of
        Inl e \<Rightarrow> Inl e
      | Inr s' \<Rightarrow> relaxCollide P n s')"

definition updatePhysics :: "constants \<Rightarrow> state \<Rightarrow> error + state" where
  "updatePhysics P s =
     (if status s \<noteq> PLAYING then Inr s
      else
        (case relaxCollide P (ITERATIONS P) (integrate P (applyControls P s)) of
           Inl e \<Rightarrow> Inl e
         | Inr s' \<Rightarrow> Inr (checkGameplay s')))"

section \<open>initLevel\<close>

text \<open>
  \<open>Math.random\<close> is a parameter: \<open>rnd k\<close> is the value of the \<open>k\<close>-th call made by one run of
  \<open>initLevel\<close>. The loop variables of the terrain generation, with the number of calls
  made so far:
\<close>

record levelgen =
  tX :: real
  tY :: real
  g_terrain :: "Vertex list"
  g_apples :: "Entity list"
  g_killers :: "Entity list"
  calls :: nat

definition genSegment :: "(nat \<Rightarrow> real) \<Rightarrow> real \<Rightarrow> nat \<Rightarrow> levelgen \<Rightarrow> levelgen" where
  "genSegment rnd height i g =
     (let k = calls g;
          tX' = tX g + (80 + rnd k * 100);
          variation = (rnd (k + 1) - 0.5) * 250;
          tY1 = max 200 (min (height + 200) (tY g + variation));
          tY' = (if rnd (k + 2) > 0.8 then height - 200 else tY1);
          g1 = g\<lparr>tX := tX', tY := tY',
                 g_terrain := g_terrain g @ [\<lparr>vx = tX', vy = tY'\<rparr>], calls := k + 3\<rparr>;
          g2 = (if rnd (calls g1) > 0.5
                then g1\<lparr>g_apples := g_apples g1 @
                          [\<lparr>ex = tX', ey = tY' - 120 - rnd (calls g1 + 1) * 50,
                            r = None, collected = Some False\<rparr>],
                        calls := calls g1 + 2\<rparr>
                else g1\<lparr>calls := calls g1 + 1\<rparr>);
          g3 = (if i > 3
                then (if rnd (calls g2) > 0.7
                      then g2\<lparr>g_killers := g_killers g2 @
                                [\<lparr>ex = tX' + 20, ey = tY' - 15, r = Some 15, collected = None\<rparr>],
                              calls := calls g2 + 1\<rparr>
                      else g2\<lparr>calls := calls g2 + 1\<rparr>)
                else g2)
      in g3)"

definition genStart :: "real \<Rightarrow> levelgen" where
  "genStart height =
     \<lparr>tX = 0, tY = height - 200,
      g_terrain = [\<lparr>vx = 0, vy = height + 2000\<rparr>, \<lparr>vx = 0, vy = height - 200\<rparr>],
      g_apples = [], g_killers = [], calls = 0\<rparr>"

definition genLevel :: "constants \<Rightarrow> (nat \<Rightarrow> real) \<Rightarrow> real \<Rightarrow> levelgen" where
  "genLevel P rnd height =
     (let g = fold (genSegment rnd height) [0..<TERRAIN_SEGMENTS P] (genStart height)
      in g\<lparr>g_terrain := g_terrain g @ [\<lparr>vx = tX g + 500, vy = height + 2000\<rparr>]\<rparr>)"

text \<open>
  The five points of the bike are new objects; they are placed at the addresses 0 to 4,
  which nothing of the new state refers to otherwise, every reference being rebuilt.
\<close>

definition initLevel ::
  "constants \<Rightarrow> (nat \<Rightarrow> real) \<Rightarrow> real \<Rightarrow> real \<Rightarrow> GameStatus \<Rightarrow> state \<Rightarrow> state" where
  "initLevel P rnd wd height startStatus s =
     (let g = genLevel P rnd height;
          sx = 200;
          sy = height - 400;
          h = (heap s)
                (0 := createPoint sx sy 1.5 23 True,
                 1 := createPoint (sx + 85) sy 1.5 23 True,
                 2 := createPoint (sx + 40) (sy - 45) 2 10 False,
                 3 := createPoint (sx + 60) (sy - 70) 0.5 5 False,
                 4 := createPoint (sx + 20) (sy - 95) 0.5 12 False);
          b = \<lparr>rw = 0, fw = 1, body = 2, head = 4, handle = 3\<rparr>
      in \<lparr>points = [rw b, fw b, body b, handle b, head b],
          heap = h,
          sticks =
            [createStick h (rw b) (body b) None (SUSPENSION_STIFFNESS P) True 2,
             createStick h (fw b) (handle b) None (SUSPENSION_STIFFNESS P) True 2,
             createStick h (rw b) (fw b) None (RIGID_STIFFNESS P) True 2,
             createStick h (body b) (handle b) None (RIGID_STIFFNESS P) True 2,
             createStick h (body b) (head b) None (RIGID_STIFFNESS P) True 2,
             createStick h (rw b) (handle b) None (RIGID_STIFFNESS P) False 2,
             createStick h (fw b) (body b) None (RIGID_STIFFNESS P) False 2,
             createStick h (rw b) (head b) None 0.5 False 2,
             createStick h (handle b) (head b) None (RIGID_STIFFNESS P) False 2],
          terrain = g_terrain g,
          apples = g_apples g,
          killers = g_killers g,
          flower = \<lparr>fx = tX g, fy = tY g - 100, unlocked = False\<rparr>,
          bike = b,
          keys = \<lparr>up = False, down = False, left = False, right = False,
                  space = False, enter = False\<rparr>,
          status = startStatus,
          camera = \<lparr>cx = - sx + wd / 2, cy = - sy + height / 1.5\<rparr>\<rparr>)"

section \<open>Event handlers\<close>

text \<open>
  \<open>canvas\<close> is the size of the canvas element when \<open>canvasRef.current\<close> is set. The HUD
  state and the timers, which only the display reads, are not part of the model.
\<close>

definition startGame ::
  "constants \<Rightarrow> (nat \<Rightarrow> real) \<Rightarrow> (real \<times> real) option \<Rightarrow> state \<Rightarrow> state" where
  "startGame P rnd canvas s =
     (case canvas of None \<Rightarrow> s | Some (w, h) \<Rightarrow> initLevel P rnd w h PLAYING s)"

definition setKey :: "string \<Rightarrow> bool \<Rightarrow> InputState \<Rightarrow> InputState" where
  "setKey code v k =
     (let k1 = (if code = ''ArrowUp'' then k\<lparr>up := v\<rparr> else k);
          k2 = (if code = ''ArrowDown'' then k1\<lparr>down := v\<rparr> else k1);
          k3 = (if code = ''ArrowLeft'' then k2\<lparr>left := v\<rparr> else k2);
          k4 = (if code = ''ArrowRight'' then k3\<lparr>right := v\<rparr> else k3);
          k5 = (if code = ''Space'' then k4\<lparr>space := v\<rparr> else k4);
          k6 = (if code = ''Enter'' then k5\<lparr>enter := v\<rparr> else k5)
      in k6)"

definition handleKeyDown ::
  "constants \<Rightarrow> (nat \<Rightarrow> real) \<Rightarrow> (real \<times> real) option \<Rightarrow> string \<Rightarrow> state \<Rightarrow> state" where
  "handleKeyDown P rnd canvas code s =
     (let s1 = s\<lparr>keys := setKey code True (keys s)\<rparr>
      in if code = ''Enter'' \<and> status s1 \<noteq> PLAYING then startGame P rnd canvas s1 else s1)"

definition handleKeyUp :: "string \<Rightarrow> state \<Rightarrow> state" where
  "handleKeyUp code s = s\<lparr>keys := setKey code False (keys s)\<rparr>"

definition handleResize ::
  "constants \<Rightarrow> (nat \<Rightarrow> real) \<Rightarrow> bool \<Rightarrow> real \<Rightarrow> real \<Rightarrow> state \<Rightarrow> state" where
  "handleResize P rnd mounted innerWidth innerHeight s =
     (if mounted \<and> status s = MENU then initLevel P rnd innerWidth innerHeight MENU s else s)"

text \<open>
  Of \<open>draw\<close> only the write to the state is modelled, the smoothing of the camera; its
  guard \<open>if (!s.bike.body) return\<close> concerns the empty bike before the first \<open>initLevel\<close>,
  which the record type \<open>Bike\<close> does not contain.
\<close>

definition draw :: "real \<Rightarrow> real \<Rightarrow> state \<Rightarrow> state" where
  "draw wd height s =
     (let targetX = - px (heap s (body (bike s))) + wd / 2;
          targetY = - py (heap s (body (bike s))) + height / 1.8
      in s\<lparr>camera := \<lparr>cx = cx (camera s) + (targetX - cx (camera s)) * 0.1,
                        cy = cy (camera s) + (targetY - cy (camera s)) * 0.1\<rparr>\<rparr>)"

text \<open>
  One frame: \<open>tick\<close> runs as many fixed physics steps as the accumulated wall-clock time
  allows (the number \<open>k\<close>, a parameter here) and then draws. An exception leaves the frame.
\<close>

fun physicsSteps :: "constants \<Rightarrow> nat \<Rightarrow> state \<Rightarrow> error + state" where
  "physicsSteps P 0 s = Inr s"
| "physicsSteps P (Suc k) s =
     (case updatePhysics P s of Inl e \<Rightarrow> Inl e | Inr s' \<Rightarrow> physicsSteps P k s')"

definition tick :: "constants \<Rightarrow> (real \<times> real) option \<Rightarrow> nat \<Rightarrow> state \<Rightarrow> error + state" where
  "tick P canvas k s =
     (case canvas of
        None \<Rightarrow> Inr s
      | Some (w, h) \<Rightarrow>
          (case physicsSteps P k s of Inl e \<Rightarrow> Inl e | Inr s' \<Rightarrow> Inr (draw w h s')))"

datatype event =
  KeyDown string | KeyUp string | Resize real real | Restart | Tick nat

fun step ::
  "constants \<Rightarrow> (nat \<Rightarrow> real) \<Rightarrow> (real \<times> real) option \<Rightarrow> event \<Rightarrow> state \<Rightarrow> error + state" where
  "step P rnd canvas (KeyDown code) s = Inr (handleKeyDown P rnd canvas code s)"
| "step P rnd canvas (KeyUp code) s = Inr (handleKeyUp code s)"
| "step P rnd canvas (Resize w h) s = Inr (handleResize P rnd (canvas \<noteq> None) w h s)"
| "step P rnd canvas Restart s = Inr (startGame P rnd canvas s)"
| "step P rnd canvas (Tick k) s = tick P canvas k s"

section \<open>Concrete scenarios\<close>

text \<open>
  Values for the constants of the missing module, used where a statement is evaluated on
  a concrete input, and a bike at rest above a flat ground (y grows downwards).
\<close>

definition testConstants :: constants where
  "testConstants =
     \<lparr>GRAVITY = 1 / 2, FRICTION = 1, WHEEL_SPEED = 1, BIKE_TORQUE = 1,
      GROUND_FRICTION = 1 / 2, SUSPENSION_STIFFNESS = 1 / 2, RIGID_STIFFNESS = 1,
      ITERATIONS = 1, TERRAIN_SEGMENTS = 2\<rparr>"

definition restHeap :: "ref \<Rightarrow> Point" where
  "restHeap =
     (\<lambda>_. createPoint 0 0 1 5 False)
       (0 := createPoint 0 0 1.5 23 True,
        1 := createPoint 85 0 1.5 23 True,
        2 := createPoint 40 (- 45) 2 10 False,
        3 := createPoint 60 (- 70) 0.5 5 False,
        4 := createPoint 20 (- 95) 0.5 12 False)"

definition restState :: state where
  "restState =
     \<lparr>points = [0, 1, 2, 3, 4], heap = restHeap, sticks = [],
      terrain = [\<lparr>vx = - 1000, vy = 100\<rparr>, \<lparr>vx = 1000, vy = 100\<rparr>],
      apples = [], killers = [],
      flower = \<lparr>fx = 500, fy = 0, unlocked = False\<rparr>,
      bike = \<lparr>rw = 0, fw = 1, body = 2, head = 4, handle = 3\<rparr>,
      keys = \<lparr>up = False, down = False, left = False, right = False,
              space = False, enter = False\<rparr>,
      status = PLAYING,
      camera = \<lparr>cx = 0, cy = 0\<rparr>\<rparr>"

text \<open>
  The only apple is collected, the flower is 30 units from the rear wheel and a killer of
  radius 15 is 10 units from it.
\<close>

definition goalState :: state where
  "goalState =
     restState
       \<lparr>apples := [\<lparr>ex = - 300, ey = 0, r = None, collected = Some True\<rparr>],
        killers := [\<lparr>ex = 10, ey = 0, r = Some 15, collected = None\<rparr>],
        flower := \<lparr>fx = 30, fy = 0, unlocked = False\<rparr>\<rparr>"

text \<open>The same bike with the accelerate key held.\<close>

definition upState :: state where
  "upState = restState\<lparr>keys := (keys restState)\<lparr>up := True\<rparr>\<rparr>"

text \<open>A random source that always returns one half, and a canvas of 800 by 600.\<close>

definition rndHalf :: "nat \<Rightarrow> real" where
  "rndHalf k = 1 / 2"

definition testCanvas :: "(real \<times> real) option" where
  "testCanvas = Some (800, 600)"

text \<open>
  The rear wheel pinned and joined to the front wheel, 85 units away, by a stick of rest
  length 80 and stiffness 1; \<open>pinStickRev\<close> is the same stick with its ends exchanged.
  In \<open>leanState\<close> the lean-back key is held as well.
\<close>

definition pinStick :: Stick where
  "pinStick = \<lparr>p1 = 0, p2 = 1, length_stick = 80, stiffness = 1, visible = True, width = 2\<rparr>"

definition pinStickRev :: Stick where
  "pinStickRev = \<lparr>p1 = 1, p2 = 0, length_stick = 80, stiffness = 1, visible = True, width = 2\<rparr>"

definition pinnedState :: state where
  "pinnedState =
     restState\<lparr>heap := restHeap(0 := (restHeap 0)\<lparr>pinned := True\<rparr>), sticks := [pinStick]\<rparr>"

definition leanState :: state where
  "leanState = pinnedState\<lparr>keys := (keys pinnedState)\<lparr>left := True\<rparr>\<rparr>"

text \<open>
  The ground of \<open>restState\<close> is at y = 100, so that the fall line \<open>terrain[0].y + 2000\<close> is
  y = 2100. In \<open>sinkState\<close> the bike is 2190 units lower: both wheels are below the fall
  line and the head, at y = 2095, is above it. In \<open>deepState\<close> the bike is 2300 units
  lower and the head is below the line too.
\<close>

definition lowerHeap :: "real \<Rightarrow> ref \<Rightarrow> Point" where
  "lowerHeap d =
     (\<lambda>_. createPoint 0 0 1 5 False)
       (0 := createPoint 0 d 1.5 23 True,
        1 := createPoint 85 d 1.5 23 True,
        2 := createPoint 40 (d - 45) 2 10 False,
        3 := createPoint 60 (d - 70) 0.5 5 False,
        4 := createPoint 20 (d - 95) 0.5 12 False)"

definition sinkState :: state where
  "sinkState = restState\<lparr>heap := lowerHeap 2190\<rparr>"

definition deepState :: state where
  "deepState = restState\<lparr>heap := lowerHeap 2300\<rparr>"




text \<open>A point that moved one unit down during the last step.\<close>

definition sinkingPoint :: Point where
  "sinkingPoint = (createPoint 0 1 1 5 False)\<lparr>oldy := 0\<rparr>"

section \<open>The specification's formulas, for comparison with the code\<close>

text \<open>
  The integration of one point as the specification words it: velocity = (position -
  previousPosition) * frictionDamping; previousPosition = position; position += velocity;
  position.y += velocity.y + gravityConstant.
\<close>

definition integratePoint_spec :: "constants \<Rightarrow> Point \<Rightarrow> Point" where
  "integratePoint_spec P p =
     (if pinned p then p
      else
        (let velx = (px p - oldx p) * FRICTION P;
             vely = (py p - oldy p) * FRICTION P;
             q1 = p\<lparr>oldx := px p, oldy := py p\<rparr>;
             q2 = q1\<lparr>px := px q1 + velx, py := py q1 + vely\<rparr>;
             q3 = q2\<lparr>py := py q2 + (vely + GRAVITY P)\<rparr>
         in q3))"

text \<open>
  The relaxation of one stick as the specification words it: skipped at distance zero;
  otherwise the correction is split evenly between two free endpoints, and a pinned
  endpoint takes none of it, the entire correction going to the other endpoint.
\<close>

definition relaxStick_spec :: "Stick \<Rightarrow> state \<Rightarrow> state" where
  "relaxStick_spec stick s =
     (let a = heap s (p1 stick);
          b = heap s (p2 stick);
          dx = px b - px a;
          dy = py b - py a;
          dist = hypot dx dy
      in if dist = 0 then s
         else
           (let diff = (length_stick stick - dist) / dist * stiffness stick
            in if pinned a \<and> pinned b then s
               else if pinned a
               then modify (p2 stick) (\<lambda>p. p\<lparr>px := px p + dx * diff, py := py p + dy * diff\<rparr>) s
               else if pinned b
               then modify (p1 stick) (\<lambda>p. p\<lparr>px := px p - dx * diff, py := py p - dy * diff\<rparr>) s
               else modify (p2 stick)
                      (\<lambda>p. p\<lparr>px := px p + dx * diff * 0.5, py := py p + dy * diff * 0.5\<rparr>)
                      (modify (p1 stick)
                         (\<lambda>p. p\<lparr>px := px p - dx * diff * 0.5, py := py p - dy * diff * 0.5\<rparr>) s)))"

section \<open>A relation used in the proofs\<close>

text \<open>
  \<open>keeps s s'\<close>: the state \<open>s'\<close> has the terrain, the bike references and the point list of
  \<open>s\<close>, and its status is that of \<open>s\<close> or DEAD.
\<close>

definition keeps :: "state \<Rightarrow> state \<Rightarrow> bool" where
  "keeps s s' \<longleftrightarrow>
     terrain s' = terrain s \<and> bike s' = bike s \<and> points s' = points s \<and>
     (status s' = status s \<or> status s' = DEAD)"

text \<open>
  \<open>genInv height rnd n g\<close>: what holds of the loop variables of the terrain generation
  after \<open>n\<close> segments.
\<close>

definition genInv :: "real \<Rightarrow> (nat \<Rightarrow> real) \<Rightarrow> nat \<Rightarrow> levelgen \<Rightarrow> bool" where
  "genInv height rnd n g \<longleftrightarrow>
     length (g_terrain g) = n + 2 \<and>
     g_terrain g ! 0 = \<lparr>vx = 0, vy = height + 2000\<rparr> \<and>
     g_terrain g ! 1 = \<lparr>vx = 0, vy = height - 200\<rparr> \<and>
     g_terrain g ! (n + 1) = \<lparr>vx = tX g, vy = tY g\<rparr> \<and>
     (0 \<le> height \<longrightarrow>
        (\<forall>i. 0 < i \<and> i < n + 2 \<longrightarrow> vy (g_terrain g ! i) < height + 2000)) \<and>
     ((\<forall>k. 0 \<le> rnd k) \<longrightarrow>
        sorted (map vx (g_terrain g)) \<and> (\<forall>v\<in>set (g_terrain g). vx v \<le> tX g))"

section \<open>Basic facts\<close>

lemma hypot_zero_right: "hypot a 0 = \<bar>a\<bar>"
  by (simp add: hypot_def)

lemma hypot_zero_left: "hypot 0 b = \<bar>b\<bar>"
  by (simp add: hypot_def)

lemma die_not_playing: "status s \<noteq> PLAYING \<Longrightarrow> die s = s"
  by (simp add: die_def)

lemma win_not_playing: "status s \<noteq> PLAYING \<Longrightarrow> win s = s"
  by (simp add: win_def)

lemma win_flower [simp]: "flower (win t) = flower t"
  by (simp add: win_def)

lemma die_flower [simp]: "flower (die t) = flower t"
  by (simp add: die_def)

lemma hypot_less_iff: "0 < c \<Longrightarrow> hypot a b < c \<longleftrightarrow> a * a + b * b < c * c"
proof -
  assume c: "0 < c"
  have "sqrt (c * c) = c" using c by simp
  then have "hypot a b < c \<longleftrightarrow> sqrt (a * a + b * b) < sqrt (c * c)"
    by (simp add: hypot_def)
  then show ?thesis by (simp only: real_sqrt_less_iff)
qed

text \<open>The definitions that the evaluation of a physics step on a concrete state unfolds.\<close>

lemmas eval_defs =
  updatePhysics_def integrate_def applyControls_def modify_def Let_def restHeap_def
  integratePoint_def createPoint_def testConstants_def checkCollisions_def relaxSticks_def
  restState_def collideSegment_def die_def win_def checkGameplay_def checkFlower_def
  checkKillers_def collectedCount_def bikeParts_def collectApple_def isCollected_def
  killerRadius_def hypot_less_iff hypot_zero_left hypot_zero_right

lemma initLevel_status [simp]: "status (initLevel P rnd w h st s) = st"
  by (simp add: initLevel_def Let_def)

lemma updatePhysics_not_playing: "status s \<noteq> PLAYING \<Longrightarrow> updatePhysics P s = Inr s"
  by (simp add: updatePhysics_def)

section \<open>Facts about the event handlers\<close>

lemma handleKeyUp_status: "status (handleKeyUp code s) = status s"
  by (simp add: handleKeyUp_def)

lemma handleResize_status: "status (handleResize P rnd m w h s) = status s"
  by (simp add: handleResize_def)

lemma startGame_cases:
  "startGame P rnd canvas s = s \<or>
     (\<exists>w h. canvas = Some (w, h) \<and> startGame P rnd canvas s = initLevel P rnd w h PLAYING s)"
  by (cases canvas) (auto simp add: startGame_def)

lemma handleKeyDown_cases:
  "status (handleKeyDown P rnd canvas code s) = status s \<or>
     code = ''Enter'' \<and> (\<exists>w h s0. canvas = Some (w, h) \<and>
       handleKeyDown P rnd canvas code s = initLevel P rnd w h PLAYING s0)"
  using startGame_cases [of P rnd canvas "s\<lparr>keys := setKey code True (keys s)\<rparr>"]
  by (auto simp add: handleKeyDown_def Let_def)

lemma physicsSteps_not_playing: "status s \<noteq> PLAYING \<Longrightarrow> physicsSteps P k s = Inr s"
  by (induction k) (simp_all add: updatePhysics_not_playing)

lemma draw_status [simp]: "status (draw w h s) = status s"
  by (simp add: draw_def Let_def)

lemma tick_not_playing:
  assumes "status s \<noteq> PLAYING" and "tick P canvas k s = Inr s'"
  shows "status s' = status s"
  using assms by (cases canvas) (auto simp add: tick_def physicsSteps_not_playing)

lemma step_status_cases:
  assumes "step P rnd canvas e s = Inr s'" and "status s' \<noteq> status s"
  shows "((\<exists>k. e = Tick k) \<and> status s = PLAYING) \<or>
         ((e = Restart \<or> e = KeyDown ''Enter'') \<and> status s' = PLAYING \<and>
          (\<exists>w h s0. canvas = Some (w, h) \<and> s' = initLevel P rnd w h PLAYING s0))"
proof (cases e)
  case (KeyDown code)
  then have s': "s' = handleKeyDown P rnd canvas code s" using assms(1) by simp
  show ?thesis using handleKeyDown_cases [of P rnd canvas code s] assms(2) KeyDown
    unfolding s' by auto
next
  case (KeyUp code)
  then show ?thesis using assms by (auto simp add: handleKeyUp_status)
next
  case (Resize w h)
  then show ?thesis using assms by (auto simp add: handleResize_status)
next
  case Restart
  then have s': "s' = startGame P rnd canvas s" using assms(1) by simp
  show ?thesis using startGame_cases [of P rnd canvas s] assms(2) Restart
    unfolding s' by auto
next
  case (Tick k)
  then show ?thesis using assms tick_not_playing [of s P canvas k s'] by auto
qed

lemma goalState_step_wins:
  "case updatePhysics testConstants goalState of Inl e \<Rightarrow> False | Inr s' \<Rightarrow> status s' = WON"
  by (simp add: eval_defs goalState_def)

section \<open>Facts about checkGameplay\<close>

lemma fold_win_not_playing:
  "status t \<noteq> PLAYING \<Longrightarrow> fold (\<lambda>part t. if c part t then win t else t) parts t = t"
  by (induction parts) (simp_all add: win_not_playing)

lemma fold_die_not_playing:
  "status t \<noteq> PLAYING \<Longrightarrow> fold (\<lambda>p t. if c p then die t else t) parts t = t"
  by (induction parts) (simp_all add: die_not_playing)

lemma checkKillers_not_playing:
  assumes np: "status t \<noteq> PLAYING"
  shows "checkKillers t = t"
proof -
  have "fold (\<lambda>k. fold (\<lambda>p t. if hypot (px p - ex k) (py p - ey k) < killerRadius k + radius p
                               then die t else t) ps) ks t = t"
    for ks and ps :: "Point list"
    by (induction ks) (simp_all add: fold_die_not_playing [OF np])
  then show ?thesis by (simp add: checkKillers_def)
qed

lemma fold_win_flower:
  "flower (fold (\<lambda>part t. if c part t then win t else t) parts t) = flower t"
  by (induction parts arbitrary: t) simp_all

lemma fold_die_flower:
  "flower (fold (\<lambda>p t. if c p then die t else t) parts t) = flower t"
  by (induction parts arbitrary: t) simp_all

lemma checkKillers_flower: "flower (checkKillers t) = flower t"
proof -
  have "flower (fold (\<lambda>k. fold (\<lambda>p t. if hypot (px p - ex k) (py p - ey k)
                                           < killerRadius k + radius p
                                       then die t else t) ps) ks t) = flower t"
    for ks and ps :: "Point list"
    by (induction ks arbitrary: t) (simp_all add: fold_die_flower)
  then show ?thesis by (simp add: checkKillers_def)
qed

lemma fold_win_some:
  "status t = PLAYING \<Longrightarrow>
   \<exists>part\<in>set parts. hypot (px part - fx (flower t)) (py part - fy (flower t)) < 35 \<Longrightarrow>
   status (fold (\<lambda>part t. if hypot (px part - fx (flower t)) (py part - fy (flower t)) < 35
                           then win t else t) parts t) = WON"
proof (induction parts arbitrary: t)
  case Nil
  then show ?case by simp
next
  case (Cons a parts)
  show ?case
  proof (cases "hypot (px a - fx (flower t)) (py a - fy (flower t)) < 35")
    case True
    have w: "status (win t) \<noteq> PLAYING" "status (win t) = WON"
      using Cons.prems(1) by (simp_all add: win_def)
    show ?thesis using True w
      by (simp add: fold_win_not_playing)
  next
    case False
    then show ?thesis using Cons by simp
  qed
qed

lemma all_collected_count:
  "\<forall>a\<in>set (apples s). isCollected a \<Longrightarrow> collectedCount s = length (apples s)"
  by (simp add: collectedCount_def)

lemma bikeParts_apples [simp]: "bikeParts (s\<lparr>apples := as\<rparr>) = bikeParts s"
  by (simp add: bikeParts_def)

lemma checkGameplay_all_collected:
  assumes "\<forall>a\<in>set (apples s). isCollected a"
  shows "checkGameplay s =
     checkKillers
       (fold (\<lambda>part t. if hypot (px part - fx (flower t)) (py part - fy (flower t)) < 35
                        then win t else t)
          (bikeParts s)
          (s\<lparr>apples := map (collectApple (bikeParts s)) (apples s),
             flower := (flower s)\<lparr>unlocked := True\<rparr>\<rparr>))"
  using all_collected_count [OF assms]
  by (simp add: checkGameplay_def checkFlower_def Let_def)

lemma checkGameplay_unlocks:
  assumes "\<forall>a\<in>set (apples s). isCollected a"
  shows "unlocked (flower (checkGameplay s))"
  by (simp add: checkGameplay_all_collected [OF assms] checkKillers_flower fold_win_flower)

lemma checkGameplay_wins:
  assumes "\<forall>a\<in>set (apples s). isCollected a" and "status s = PLAYING"
    and "\<exists>part\<in>set (bikeParts s).
           hypot (px part - fx (flower s)) (py part - fy (flower s)) < 35"
  shows "status (checkGameplay s) = WON"
proof -
  let ?t = "s\<lparr>apples := map (collectApple (bikeParts s)) (apples s),
             flower := (flower s)\<lparr>unlocked := True\<rparr>\<rparr>"
  let ?u = "fold (\<lambda>part t. if hypot (px part - fx (flower t)) (py part - fy (flower t)) < 35
                        then win t else t) (bikeParts s) ?t"
  have "status ?t = PLAYING" using assms(2) by simp
  moreover have "\<exists>part\<in>set (bikeParts s).
      hypot (px part - fx (flower ?t)) (py part - fy (flower ?t)) < 35"
    using assms(3) by simp
  ultimately have u: "status ?u = WON" by (rule fold_win_some)
  then have "checkKillers ?u = ?u" by (simp add: checkKillers_not_playing)
  with u show ?thesis by (simp add: checkGameplay_all_collected [OF assms(1)])
qed

lemma checkGameplay_status_not_playing:
  assumes "status s \<noteq> PLAYING"
  shows "status (checkGameplay s) = status s"
proof -
  let ?s1 = "s\<lparr>apples := map (collectApple (bikeParts s)) (apples s)\<rparr>"
  have "status (checkFlower n ?s1) = status s" for n
    using assms by (simp add: checkFlower_def fold_win_not_playing)
  moreover have "checkKillers (checkFlower n ?s1) = checkFlower n ?s1" for n
    using assms by (intro checkKillers_not_playing) (simp add: checkFlower_def fold_win_not_playing)
  ultimately show ?thesis by (simp add: checkGameplay_def Let_def)
qed

lemma bikeParts_goalState:
  "bikeParts (goalState\<lparr>status := st\<rparr>) =
     [createPoint 0 0 1.5 23 True, createPoint 85 0 1.5 23 True,
      createPoint 40 (- 45) 2 10 False, createPoint 20 (- 95) 0.5 12 False]"
  by (simp add: bikeParts_def goalState_def restState_def restHeap_def)

lemma goalState_playing: "goalState\<lparr>status := PLAYING\<rparr> = goalState"
  by (simp add: goalState_def restState_def)

lemma goalState_status: "status goalState = PLAYING"
  by (simp add: goalState_def restState_def)

lemma goalState_all_collected:
  "\<forall>a\<in>set (apples (goalState\<lparr>status := st\<rparr>)). isCollected a"
  by (simp add: goalState_def restState_def isCollected_def)

lemma goalState_at_flower:
  "\<exists>part\<in>set (bikeParts (goalState\<lparr>status := st\<rparr>)).
     hypot (px part - fx (flower (goalState\<lparr>status := st\<rparr>)))
           (py part - fy (flower (goalState\<lparr>status := st\<rparr>))) < 35"
  by (simp add: bikeParts_goalState)
    (simp add: goalState_def restState_def createPoint_def hypot_zero_right)

lemma goalState_at_killer:
  "\<exists>k\<in>set (killers (goalState\<lparr>status := st\<rparr>)).
     \<exists>p\<in>set (bikeParts (goalState\<lparr>status := st\<rparr>)).
       hypot (px p - ex k) (py p - ey k) < killerRadius k + radius p"
  by (simp add: bikeParts_goalState)
    (simp add: goalState_def restState_def createPoint_def hypot_zero_right killerRadius_def)

section \<open>Facts about the store\<close>

lemma heap_modify: "heap (modify b f s) a = (if a = b then f (heap s a) else heap s a)"
  by (simp add: modify_def)

lemma fold_modify_fixed:
  "f (heap s a) = heap s a \<Longrightarrow> heap (fold (\<lambda>b. modify b f) bs s) a = heap s a"
proof (induction bs arbitrary: s)
  case Nil
  show ?case by simp
next
  case (Cons b bs)
  have h: "heap (modify b f s) a = heap s a"
    using Cons.prems by (cases "a = b") (simp_all add: heap_modify)
  then have "f (heap (modify b f s) a) = heap (modify b f s) a"
    using Cons.prems by simp
  then have "heap (fold (\<lambda>b. modify b f) bs (modify b f s)) a = heap (modify b f s) a"
    by (rule Cons.IH)
  then show ?case using h by simp
qed

lemma fold_modify_distinct:
  "distinct bs \<Longrightarrow>
   heap (fold (\<lambda>b. modify b f) bs s) a = (if a \<in> set bs then f (heap s a) else heap s a)"
  by (induction bs arbitrary: s) (auto simp add: heap_modify)

lemma points_modify [simp]: "points (modify b f s) = points s"
  by (simp add: modify_def)

lemma relaxStick_pinned:
  "pinned (heap s a) \<Longrightarrow> heap (relaxStick stick s) a = heap s a"
  by (auto simp add: relaxStick_def Let_def heap_modify)

lemma fold_relaxStick_pinned:
  "pinned (heap s a) \<Longrightarrow> heap (fold relaxStick sts s) a = heap s a"
  by (induction sts arbitrary: s) (simp_all add: relaxStick_pinned)

lemma sticks_modify [simp]: "sticks (modify b f s) = sticks s"
  by (simp add: modify_def)

lemma relaxSticks_pinned:
  "pinned (heap s a) \<Longrightarrow> heap (relaxSticks s) a = heap s a"
  by (simp add: relaxSticks_def fold_relaxStick_pinned)

lemma funpow_relaxSticks_pinned:
  "pinned (heap s a) \<Longrightarrow> heap ((relaxSticks ^^ n) s) a = heap s a"
  by (induction n) (simp_all add: relaxSticks_pinned)

lemma integrate_pinned:
  "pinned (heap s a) \<Longrightarrow> heap (integrate P s) a = heap s a"
  by (simp add: integrate_def fold_modify_fixed integratePoint_def)

lemma keys_modify [simp]: "keys (modify b f s) = keys s"
  by (simp add: modify_def)

lemma bike_modify [simp]: "bike (modify b f s) = bike s"
  by (simp add: modify_def)

lemma pinned_modify:
  "(\<And>p. pinned (f p) = pinned p) \<Longrightarrow> pinned (heap (modify b f s) a) = pinned (heap s a)"
  by (simp add: heap_modify)

lemma position_modify:
  "(\<And>p. px (f p) = px p \<and> py (f p) = py p) \<Longrightarrow>
   px (heap (modify b f s) a) = px (heap s a) \<and> py (heap (modify b f s) a) = py (heap s a)"
  by (simp add: heap_modify)

lemma applyControls_pinned:
  "pinned (heap (applyControls P s) a) = pinned (heap s a)"
  by (simp add: applyControls_def Let_def pinned_modify)

lemma applyControls_position:
  "\<not> left (keys s) \<Longrightarrow> \<not> right (keys s) \<Longrightarrow> \<not> space (keys s) \<Longrightarrow>
   px (heap (applyControls P s) a) = px (heap s a) \<and>
   py (heap (applyControls P s) a) = py (heap s a)"
  by (simp add: applyControls_def Let_def position_modify)

section \<open>Facts about the scenarios\<close>

lemma leanState_pinned: "pinned (heap (applyControls testConstants leanState) 0)"
  by (simp add: applyControls_pinned) (simp add: leanState_def pinnedState_def eval_defs)

lemma pinnedState_points:
  "heap pinnedState 0 = (createPoint 0 0 1.5 23 True)\<lparr>pinned := True\<rparr>"
  "heap pinnedState (Suc 0) = createPoint 85 0 1.5 23 True"
  by (simp_all add: pinnedState_def restState_def restHeap_def)

lemma pinnedState_dist:
  "hypot (px (heap pinnedState (Suc 0)) - px (heap pinnedState 0))
         (py (heap pinnedState (Suc 0)) - py (heap pinnedState 0)) = 85"
  "hypot (px (heap pinnedState 0) - px (heap pinnedState (Suc 0)))
         (py (heap pinnedState 0) - py (heap pinnedState (Suc 0))) = 85"
  by (simp_all add: pinnedState_points createPoint_def hypot_zero_right)

section \<open>Facts about the integration\<close>

lemma integrate_point:
  assumes "distinct (points s)"
  shows "heap (integrate P s) a =
           (if a \<in> set (points s) then integratePoint P (heap s a) else heap s a)"
  using assms by (simp add: integrate_def fold_modify_distinct)

lemma applyControls_up_only:
  assumes "up (keys s)" "\<not> down (keys s)" "\<not> left (keys s)" "\<not> right (keys s)"
    "\<not> space (keys s)"
  shows "applyControls P s = modify (rw (bike s)) (\<lambda>p. p\<lparr>oldx := oldx p - WHEEL_SPEED P\<rparr>) s"
  using assms by (simp add: applyControls_def Let_def)

lemma sinkState_points:
  "points sinkState = [0, 1, 2, 3, 4]"
  "heap sinkState 0 = createPoint 0 2190 1.5 23 True"
  by (simp_all add: sinkState_def restState_def lowerHeap_def)

lemma upState_facts:
  "up (keys upState)" "\<not> down (keys upState)" "\<not> left (keys upState)" "\<not> right (keys upState)"
  "\<not> space (keys upState)" "distinct (points upState)" "rw (bike upState) \<in> set (points upState)"
  "\<not> pinned (heap upState (rw (bike upState)))"
  by (simp_all add: upState_def restState_def restHeap_def createPoint_def)

section \<open>Facts about the collision passes\<close>

lemma keeps_refl: "keeps s s"
  by (simp add: keeps_def)

lemma keeps_trans: "keeps s t \<Longrightarrow> keeps t u \<Longrightarrow> keeps s u"
  by (auto simp add: keeps_def)

lemma keeps_modify: "keeps s (modify a f s)"
  by (simp add: keeps_def modify_def)

lemma keeps_die: "keeps s (die s)"
  by (simp add: keeps_def die_def)

lemma keeps_fold:
  assumes "\<And>b t. keeps t (f b t)"
  shows "keeps s (fold f bs s)"
proof (induction bs arbitrary: s)
  case Nil
  show ?case by (simp add: keeps_refl)
next
  case (Cons b bs)
  have "keeps s (f b s)" by (rule assms)
  moreover have "keeps (f b s) (fold f bs (f b s))" by (rule Cons.IH)
  ultimately show ?case by (simp add: keeps_trans[of s "f b s"])
qed

lemma keeps_relaxStick: "keeps s (relaxStick stick s)"
  by (simp add: relaxStick_def Let_def keeps_refl keeps_modify keeps_trans [OF keeps_modify keeps_modify])

lemma keeps_relaxSticks: "keeps s (relaxSticks s)"
  unfolding relaxSticks_def by (rule keeps_fold) (rule keeps_relaxStick)

lemma keeps_integrate: "keeps s (integrate P s)"
  unfolding integrate_def by (rule keeps_fold) (rule keeps_modify)

lemma status_modify [simp]: "status (modify a f s) = status s"
  by (simp add: modify_def)

lemma terrain_modify [simp]: "terrain (modify a f s) = terrain s"
  by (simp add: modify_def)

lemma keeps_applyControls: "keeps s (applyControls P s)"
  by (simp add: keeps_def applyControls_def Let_def)

lemma keeps_collideSegment: "keeps s (snd (collideSegment P a v1 v2 s))"
  by (simp add: collideSegment_def Let_def keeps_refl keeps_modify keeps_die)

lemma keeps_collideSegments: "keeps s (snd (collideSegments P a segs s))"
proof (induction segs arbitrary: s)
  case Nil
  show ?case by (simp add: keeps_refl)
next
  case (Cons seg segs)
  obtain v1 v2 where seg: "seg = (v1, v2)" by (cases seg)
  obtain b s' where c: "collideSegment P a v1 v2 s = (b, s')"
    by (cases "collideSegment P a v1 v2 s")
  have k: "keeps s s'" using keeps_collideSegment [of s P a v1 v2] c by simp
  show ?case
  proof (cases b)
    case True
    then show ?thesis using seg c k by simp
  next
    case False
    then show ?thesis using seg c k Cons.IH [of s'] by (simp add: keeps_trans [of s s'])
  qed
qed

lemma keeps_collidePoints: "keeps s (collidePoints P as s)"
proof (induction as arbitrary: s)
  case Nil
  show ?case by (simp add: keeps_refl)
next
  case (Cons a as)
  obtain b s' where c: "collideSegments P a (segments (terrain s)) s = (b, s')"
    by (cases "collideSegments P a (segments (terrain s)) s")
  have k: "keeps s s'" using keeps_collideSegments [of s P a "segments (terrain s)"] c by simp
  show ?case
  proof (cases b)
    case True
    then show ?thesis using c k by simp
  next
    case False
    then show ?thesis using c k Cons.IH [of s'] by (simp add: keeps_trans [of s s'])
  qed
qed

lemma checkCollisions_cases:
  "terrain s = v0 # vs \<Longrightarrow>
   checkCollisions P s =
     Inr (collidePoints P (points s)
            (if py (heap s (head (bike s))) > vy v0 + 2000 then die s else s))"
  by (simp add: checkCollisions_def)

lemma keeps_checkCollisions:
  assumes "terrain s = v0 # vs"
  shows "\<exists>s'. checkCollisions P s = Inr s' \<and> keeps s s'"
proof -
  let ?d = "if py (heap s (head (bike s))) > vy v0 + 2000 then die s else s"
  have "keeps s ?d" by (simp add: keeps_die keeps_refl)
  moreover have "keeps ?d (collidePoints P (points s) ?d)" by (rule keeps_collidePoints)
  ultimately have "keeps s (collidePoints P (points s) ?d)" by (rule keeps_trans)
  then show ?thesis using checkCollisions_cases [OF assms] by simp
qed

lemma checkCollisions_fall:
  assumes "terrain s = v0 # vs" and "status s = PLAYING \<or> status s = DEAD"
    and "py (heap s (head (bike s))) > vy v0 + 2000"
  shows "\<exists>s'. checkCollisions P s = Inr s' \<and> keeps s s' \<and> status s' = DEAD"
proof -
  have d: "status (die s) = DEAD" using assms(2) by (auto simp add: die_def)
  have "keeps (die s) (collidePoints P (points s) (die s))" by (rule keeps_collidePoints)
  then have "status (collidePoints P (points s) (die s)) = DEAD"
    using d by (auto simp add: keeps_def)
  moreover have "keeps s (collidePoints P (points s) (die s))"
    using keeps_trans [OF keeps_die keeps_collidePoints] .
  ultimately show ?thesis using checkCollisions_cases [OF assms(1)] assms(3) by simp
qed

lemma relaxCollide_keeps:
  assumes "terrain s = v0 # vs"
  shows "\<exists>s'. relaxCollide P n s = Inr s' \<and> keeps s s'"
  using assms
proof (induction n arbitrary: s)
  case 0
  show ?case by (simp add: keeps_refl)
next
  case (Suc n)
  have r: "keeps s (relaxSticks s)" by (rule keeps_relaxSticks)
  then have "terrain (relaxSticks s) = v0 # vs" using Suc.prems by (simp add: keeps_def)
  then obtain t where t: "checkCollisions P (relaxSticks s) = Inr t" "keeps (relaxSticks s) t"
    using keeps_checkCollisions by blast
  have st: "keeps s t" using r t(2) by (rule keeps_trans)
  then have "terrain t = v0 # vs" using Suc.prems by (simp add: keeps_def)
  then obtain u where u: "relaxCollide P n t = Inr u" "keeps t u"
    using Suc.IH by blast
  show ?case using t(1) u st by (auto intro: keeps_trans)
qed

lemma relaxCollide_add:
  "relaxCollide P (k + m) s =
     (case relaxCollide P k s of Inl e \<Rightarrow> Inl e | Inr t \<Rightarrow> relaxCollide P m t)"
  by (induction k arbitrary: s) (simp_all split: sum.splits)

lemma deepState_facts:
  "status deepState = PLAYING"
  "terrain deepState = [\<lparr>vx = - 1000, vy = 100\<rparr>, \<lparr>vx = 1000, vy = 100\<rparr>]"
  "head (bike deepState) = 4"
  "py (heap (relaxSticks (integrate testConstants (applyControls testConstants deepState))) 4)
     = 4411 / 2"
  by (simp_all add: deepState_def lowerHeap_def eval_defs)

section \<open>Facts about the terrain generation\<close>

lemma genSegment_fields:
  "g_terrain (genSegment rnd height i g) =
     g_terrain g @ [\<lparr>vx = tX (genSegment rnd height i g), vy = tY (genSegment rnd height i g)\<rparr>]"
  "tX (genSegment rnd height i g) = tX g + (80 + rnd (calls g) * 100)"
  "tY (genSegment rnd height i g) = height - 200 \<or>
   tY (genSegment rnd height i g) = max 200 (min (height + 200)
      (tY g + (rnd (calls g + 1) - 0.5) * 250))"
  by (simp_all add: genSegment_def Let_def)

lemma genInv_start: "genInv height rnd 0 (genStart height)"
  by (auto simp add: genInv_def genStart_def)

lemma genInv_step:
  assumes "genInv height rnd n g"
  shows "genInv height rnd (Suc n) (genSegment rnd height i g)"
proof -
  let ?g = "genSegment rnd height i g"
  let ?v = "\<lparr>vx = tX ?g, vy = tY ?g\<rparr>"
  have t: "g_terrain ?g = g_terrain g @ [?v]" by (rule genSegment_fields(1))
  have len: "length (g_terrain g) = n + 2" using assms by (simp add: genInv_def)
  have a: "length (g_terrain ?g) = Suc n + 2" using t len by simp
  have b: "g_terrain ?g ! 0 = \<lparr>vx = 0, vy = height + 2000\<rparr>"
    "g_terrain ?g ! 1 = \<lparr>vx = 0, vy = height - 200\<rparr>"
    using assms len unfolding t by (simp_all add: genInv_def nth_append)
  have c: "g_terrain ?g ! (Suc n + 1) = ?v"
    unfolding t using len by (simp add: nth_append)
  have d: "vy (g_terrain ?g ! j) < height + 2000" if "0 \<le> height" "0 < j" "j < Suc n + 2" for j
  proof (cases "j < n + 2")
    case True
    then show ?thesis using assms that len unfolding t by (simp add: genInv_def nth_append)
  next
    case False
    then have j: "j = n + 2" using that(3) by simp
    have "tY ?g < height + 2000"
      using genSegment_fields(3) [of rnd height i g] that(1) by auto
    then show ?thesis unfolding t j using len by (simp add: nth_append)
  qed
  have e: "sorted (map vx (g_terrain ?g)) \<and> (\<forall>v\<in>set (g_terrain ?g). vx v \<le> tX ?g)"
    if r: "\<forall>k. 0 \<le> rnd k"
  proof -
    have s: "sorted (map vx (g_terrain g))" and u: "\<forall>v\<in>set (g_terrain g). vx v \<le> tX g"
      using assms r by (simp_all add: genInv_def)
    have "0 \<le> rnd (calls g)" using r by simp
    then have le: "tX g \<le> tX ?g" by (simp add: genSegment_fields(2))
    have u': "\<forall>v\<in>set (g_terrain g). vx v \<le> tX ?g" using u le by auto
    show ?thesis unfolding t using s u' by (simp add: sorted_append)
  qed
  show ?thesis
    unfolding genInv_def using a b c d e by (simp del: One_nat_def)
qed

lemma genInv_fold:
  "genInv height rnd n g \<Longrightarrow>
   genInv height rnd (n + length is) (fold (genSegment rnd height) is g)"
proof (induction "is" arbitrary: n g)
  case Nil
  then show ?case by simp
next
  case (Cons i "is")
  have "genInv height rnd (Suc n) (genSegment rnd height i g)"
    using Cons.prems by (rule genInv_step)
  then have "genInv height rnd (Suc n + length is)
      (fold (genSegment rnd height) is (genSegment rnd height i g))"
    by (rule Cons.IH)
  then show ?case by simp
qed

lemma genInv_loop:
  "genInv height rnd (TERRAIN_SEGMENTS P)
     (fold (genSegment rnd height) [0..<TERRAIN_SEGMENTS P] (genStart height))"
  using genInv_fold [OF genInv_start, of height rnd "[0..<TERRAIN_SEGMENTS P]"] by simp

lemma initLevel_terrain:
  "terrain (initLevel P rnd w h st s) =
     g_terrain (fold (genSegment rnd h) [0..<TERRAIN_SEGMENTS P] (genStart h)) @
       [\<lparr>vx = tX (fold (genSegment rnd h) [0..<TERRAIN_SEGMENTS P] (genStart h)) + 500,
         vy = h + 2000\<rparr>]"
  "fx (flower (initLevel P rnd w h st s)) =
     tX (fold (genSegment rnd h) [0..<TERRAIN_SEGMENTS P] (genStart h))"
  by (simp_all add: initLevel_def genLevel_def Let_def)

lemma upt_two: "[0..<2] = [0, Suc 0]"
  by (simp add: numeral_2_eq_2)

lemma testLevel_terrain:
  "terrain (initLevel testConstants rndHalf 800 600 PLAYING restState) =
     [\<lparr>vx = 0, vy = 2600\<rparr>, \<lparr>vx = 0, vy = 400\<rparr>, \<lparr>vx = 130, vy = 400\<rparr>,
      \<lparr>vx = 260, vy = 400\<rparr>, \<lparr>vx = 760, vy = 2600\<rparr>]"
  by (simp add: initLevel_terrain testConstants_def genStart_def genSegment_def rndHalf_def
      Let_def upt_two)

section \<open>Facts about a fall below the terrain\<close>







lemma die_fields [simp]:
  "terrain (die s) = terrain s" "heap (die s) = heap s" "points (die s) = points s"
  "bike (die s) = bike s"
  by (simp_all add: die_def)






section \<open>The claims\<close>

text \<open>
  C1. \<open>die\<close> and \<open>win\<close> change the status only from PLAYING (to DEAD and to WON); in any
  other status they return the state as it is. Over all the events that write the state
  (key down, key up, resize, the restart button and a frame with its physics steps): an
  event whose result has a new status DEAD or WON is a frame entered in PLAYING, and an
  event that leaves DEAD or WON is the restart button or the Enter key, its result being
  the result of a call of \<open>initLevel\<close> with PLAYING.
\<close>

theorem status_machine:
  "(status s = PLAYING \<longrightarrow> status (die s) = DEAD \<and> status (win s) = WON) \<and>
   (status s \<noteq> PLAYING \<longrightarrow> die s = s \<and> win s = s) \<and>
   (step P rnd canvas e s = Inr s' \<and> status s' \<noteq> status s \<and>
      (status s' = DEAD \<or> status s' = WON) \<longrightarrow>
      status s = PLAYING \<and> (\<exists>k. e = Tick k)) \<and>
   (step P rnd canvas e s = Inr s' \<and> status s' \<noteq> status s \<and>
      (status s = DEAD \<or> status s = WON) \<longrightarrow>
      status s' = PLAYING \<and> (e = Restart \<or> e = KeyDown ''Enter'') \<and>
      (\<exists>w h s0. canvas = Some (w, h) \<and> s' = initLevel P rnd w h PLAYING s0))"
proof -
  have a: "status s = PLAYING \<longrightarrow> status (die s) = DEAD \<and> status (win s) = WON"
    by (simp add: die_def win_def)
  have b: "status s \<noteq> PLAYING \<longrightarrow> die s = s \<and> win s = s"
    by (simp add: die_def win_def)
  have c: "status s = PLAYING \<and> (\<exists>k. e = Tick k)"
    if "step P rnd canvas e s = Inr s'" "status s' \<noteq> status s"
      "status s' = DEAD \<or> status s' = WON"
    using step_status_cases [OF that(1,2)] that(3) by auto
  have d: "status s' = PLAYING \<and> (e = Restart \<or> e = KeyDown ''Enter'') \<and>
      (\<exists>w h s0. canvas = Some (w, h) \<and> s' = initLevel P rnd w h PLAYING s0)"
    if "step P rnd canvas e s = Inr s'" "status s' \<noteq> status s"
      "status s = DEAD \<or> status s = WON"
    using step_status_cases [OF that(1,2)] that(3) by auto
  from a b c d show ?thesis by blast
qed

theorem status_machine_witness:
  "status goalState = PLAYING \<and>
   status (die goalState) = DEAD \<and> status (win goalState) = WON \<and>
   status (win goalState) \<noteq> PLAYING \<and>
   die (win goalState) = win goalState \<and> win (win goalState) = win goalState \<and>
   (case step testConstants rndHalf testCanvas (Tick 1) goalState of
      Inl e \<Rightarrow> False | Inr s' \<Rightarrow> status s' = WON) \<and>
   status (startGame testConstants rndHalf testCanvas (win goalState)) = PLAYING \<and>
   startGame testConstants rndHalf testCanvas (win goalState) =
     initLevel testConstants rndHalf 800 600 PLAYING (win goalState)"
proof -
  have p: "status goalState = PLAYING" by (rule goalState_status)
  have dw: "status (die goalState) = DEAD \<and> status (win goalState) = WON"
    using status_machine [of goalState] p by simp
  then have w: "status (win goalState) \<noteq> PLAYING" by simp
  have np: "die (win goalState) = win goalState \<and> win (win goalState) = win goalState"
    using status_machine [of "win goalState"] w by simp
  obtain s' where s': "updatePhysics testConstants goalState = Inr s'" "status s' = WON"
    using goalState_step_wins by (cases "updatePhysics testConstants goalState") auto
  have ph: "step testConstants rndHalf testCanvas (Tick 1) goalState = Inr (draw 800 600 s')"
    using s'(1) by (simp add: tick_def testCanvas_def)
  have "status goalState = PLAYING \<and> (\<exists>k. Tick 1 = Tick k)"
    using status_machine [of goalState testConstants rndHalf testCanvas "Tick 1" "draw 800 600 s'"]
      ph s'(2) p
    by simp
  have rs: "step testConstants rndHalf testCanvas Restart (win goalState) =
      Inr (initLevel testConstants rndHalf 800 600 PLAYING (win goalState))"
    by (simp add: startGame_def testCanvas_def)
  have "status (initLevel testConstants rndHalf 800 600 PLAYING (win goalState)) = PLAYING"
    using status_machine [of "win goalState" testConstants rndHalf testCanvas Restart
        "initLevel testConstants rndHalf 800 600 PLAYING (win goalState)"] rs dw
    by simp
  then show ?thesis using p dw w np ph s'(2) rs by simp
qed

text \<open>
  C9. In a gameplay evaluation that finds every apple collected, the flower is unlocked;
  if the status is PLAYING and one of the four parts rearWheel, frontWheel, body, head is
  less than 35 units from the flower, the status becomes WON. Once the status is WON, a
  further evaluation (any later contact with the flower) leaves it WON, and a physics
  step does not change the state at all: the transition happens once.
\<close>

theorem flower_win_once:
  assumes "\<forall>a\<in>set (apples s). isCollected a"
  shows "unlocked (flower (checkGameplay s)) \<and>
         (status s = PLAYING \<and>
          (\<exists>part\<in>set (bikeParts s).
             hypot (px part - fx (flower s)) (py part - fy (flower s)) < 35) \<longrightarrow>
          status (checkGameplay s) = WON) \<and>
         (status s = WON \<longrightarrow>
          status (checkGameplay s) = WON \<and> updatePhysics P s = Inr s)"
  using checkGameplay_unlocks [OF assms] checkGameplay_wins [OF assms]
    checkGameplay_status_not_playing [of s]
  by (auto simp add: updatePhysics_def)

theorem flower_win_once_witness:
  "map isCollected (apples goalState) = [True] \<and>
   status goalState = PLAYING \<and>
   hypot (px (heap goalState (rw (bike goalState))) - fx (flower goalState))
         (py (heap goalState (rw (bike goalState))) - fy (flower goalState)) < 35 \<and>
   unlocked (flower (checkGameplay goalState)) \<and>
   status (checkGameplay goalState) = WON \<and>
   status (checkGameplay (goalState\<lparr>status := WON\<rparr>)) = WON \<and>
   updatePhysics testConstants (goalState\<lparr>status := WON\<rparr>) = Inr (goalState\<lparr>status := WON\<rparr>)"
proof -
  have "unlocked (flower (checkGameplay goalState)) \<and> status (checkGameplay goalState) = WON"
    using flower_win_once [OF goalState_all_collected, of PLAYING testConstants]
      goalState_at_flower [of PLAYING]
    by (simp add: goalState_playing goalState_status)
  moreover have "status (checkGameplay (goalState\<lparr>status := WON\<rparr>)) = WON \<and>
      updatePhysics testConstants (goalState\<lparr>status := WON\<rparr>) = Inr (goalState\<lparr>status := WON\<rparr>)"
    using flower_win_once [OF goalState_all_collected, of WON testConstants]
    by simp
  moreover have "map isCollected (apples goalState) = [True]"
    by (simp add: goalState_def restState_def isCollected_def)
  moreover have "status goalState = PLAYING"
    by (simp add: goalState_def restState_def)
  moreover have
    "hypot (px (heap goalState (rw (bike goalState))) - fx (flower goalState))
           (py (heap goalState (rw (bike goalState))) - fy (flower goalState)) < 35"
    by (simp add: goalState_def restState_def restHeap_def createPoint_def hypot_zero_right)
  ultimately show ?thesis by simp
qed

text \<open>
  C10. If, in one gameplay evaluation entered with status PLAYING, every apple is
  collected, a body part is less than 35 units from the flower and a body part is also
  closer to a killer than the killer's radius plus the part's radius, the resulting
  status is WON, not DEAD: the flower is checked first, and \<open>die\<close> does nothing to the
  state that \<open>win\<close> left.
\<close>

theorem win_precedes_killers:
  assumes "status s = PLAYING"
    and "\<forall>a\<in>set (apples s). isCollected a"
    and "\<exists>part\<in>set (bikeParts s).
           hypot (px part - fx (flower s)) (py part - fy (flower s)) < 35"
    and "\<exists>k\<in>set (killers s). \<exists>p\<in>set (bikeParts s).
           hypot (px p - ex k) (py p - ey k) < killerRadius k + radius p"
  shows "status (checkGameplay s) = WON \<and> die (checkGameplay s) = checkGameplay s"
proof -
  have "status (checkGameplay s) = WON"
    using assms(2) assms(1) assms(3) by (rule checkGameplay_wins)
  then show ?thesis by (simp add: die_not_playing)
qed

theorem win_precedes_killers_witness:
  "status goalState = PLAYING \<and>
   map isCollected (apples goalState) = [True] \<and>
   hypot (px (heap goalState (rw (bike goalState))) - fx (flower goalState))
         (py (heap goalState (rw (bike goalState))) - fy (flower goalState)) < 35 \<and>
   hypot (px (heap goalState (rw (bike goalState))) - ex (hd (killers goalState)))
         (py (heap goalState (rw (bike goalState))) - ey (hd (killers goalState)))
     < killerRadius (hd (killers goalState)) + radius (heap goalState (rw (bike goalState))) \<and>
   status (checkGameplay goalState) = WON"
proof -
  have "status (checkGameplay goalState) = WON"
    using win_precedes_killers [OF _ goalState_all_collected goalState_at_flower
        goalState_at_killer, of PLAYING]
    by (simp add: goalState_playing goalState_status)
  moreover have "map isCollected (apples goalState) = [True]"
    by (simp add: goalState_def restState_def isCollected_def)
  moreover have "status goalState = PLAYING"
    by (simp add: goalState_def restState_def)
  moreover have
    "hypot (px (heap goalState (rw (bike goalState))) - fx (flower goalState))
           (py (heap goalState (rw (bike goalState))) - fy (flower goalState)) < 35"
    by (simp add: goalState_def restState_def restHeap_def createPoint_def hypot_zero_right)
  moreover have
    "hypot (px (heap goalState (rw (bike goalState))) - ex (hd (killers goalState)))
         (py (heap goalState (rw (bike goalState))) - ey (hd (killers goalState)))
     < killerRadius (hd (killers goalState)) + radius (heap goalState (rw (bike goalState)))"
    by (simp add: goalState_def restState_def restHeap_def createPoint_def hypot_zero_right
        killerRadius_def)
  ultimately show ?thesis by simp
qed

text \<open>
  C2 (as amended). In the relaxation of a stick whose endpoint distance is not zero and
  which has exactly one pinned endpoint, the pinned endpoint is not changed and the free
  endpoint is moved by its half share of the correction only: by
  \<open>(dx, dy) * (restLength - dist) / dist * stiffness * 0.5\<close>, away from or towards the other.
\<close>

theorem relaxStick_one_pinned:
  assumes "hypot (px (heap s (p2 stick)) - px (heap s (p1 stick)))
                 (py (heap s (p2 stick)) - py (heap s (p1 stick))) \<noteq> 0"
    and "pinned (heap s (p1 stick)) \<noteq> pinned (heap s (p2 stick))"
  shows "(let a = heap s (p1 stick);
              b = heap s (p2 stick);
              dx = px b - px a;
              dy = py b - py a;
              dist = hypot dx dy;
              diff = (length_stick stick - dist) / dist * stiffness stick;
              s' = relaxStick stick s
          in (pinned a \<longrightarrow>
                heap s' (p1 stick) = a \<and>
                heap s' (p2 stick) = b\<lparr>px := px b + dx * diff * 0.5, py := py b + dy * diff * 0.5\<rparr>) \<and>
             (pinned b \<longrightarrow>
                heap s' (p2 stick) = b \<and>
                heap s' (p1 stick) = a\<lparr>px := px a - dx * diff * 0.5, py := py a - dy * diff * 0.5\<rparr>))"
proof -
  have ne: "p1 stick \<noteq> p2 stick" using assms(2) by auto
  show ?thesis
    using assms ne by (auto simp add: relaxStick_def Let_def heap_modify)
qed

theorem relaxStick_one_pinned_witness:
  "pinned (heap pinnedState 0) \<and> \<not> pinned (heap pinnedState 1) \<and>
   hypot (px (heap pinnedState 1) - px (heap pinnedState 0))
         (py (heap pinnedState 1) - py (heap pinnedState 0)) = 85 \<and>
   heap (relaxStick pinStick pinnedState) 0 = heap pinnedState 0 \<and>
   px (heap (relaxStick pinStick pinnedState) 1) = 165 / 2 \<and>
   py (heap (relaxStick pinStick pinnedState) 1) = 0 \<and>
   heap (relaxStick pinStickRev pinnedState) 0 = heap pinnedState 0 \<and>
   px (heap (relaxStick pinStickRev pinnedState) 1) = 165 / 2 \<and>
   py (heap (relaxStick pinStickRev pinnedState) 1) = 0"
proof -
  have a: "hypot (px (heap pinnedState (p2 pinStick)) - px (heap pinnedState (p1 pinStick)))
                 (py (heap pinnedState (p2 pinStick)) - py (heap pinnedState (p1 pinStick))) \<noteq> 0"
    by (simp add: pinStick_def pinnedState_dist)
  have b: "pinned (heap pinnedState (p1 pinStick)) \<noteq> pinned (heap pinnedState (p2 pinStick))"
    by (simp add: pinStick_def pinnedState_points createPoint_def)
  have a': "hypot (px (heap pinnedState (p2 pinStickRev)) - px (heap pinnedState (p1 pinStickRev)))
                 (py (heap pinnedState (p2 pinStickRev)) - py (heap pinnedState (p1 pinStickRev))) \<noteq> 0"
    by (simp add: pinStickRev_def pinnedState_dist)
  have b': "pinned (heap pinnedState (p1 pinStickRev)) \<noteq> pinned (heap pinnedState (p2 pinStickRev))"
    by (simp add: pinStickRev_def pinnedState_points createPoint_def)
  have p: "pinned (heap pinnedState 0) \<and> \<not> pinned (heap pinnedState 1)"
    by (simp add: pinnedState_points createPoint_def)
  have f: "heap (relaxStick pinStick pinnedState) 0 = heap pinnedState 0 \<and>
        px (heap (relaxStick pinStick pinnedState) 1) = 165 / 2 \<and>
        py (heap (relaxStick pinStick pinnedState) 1) = 0"
    using relaxStick_one_pinned [OF a b] p
    by (simp add: Let_def pinStick_def pinnedState_dist) (simp add: pinnedState_points createPoint_def)
  have r: "heap (relaxStick pinStickRev pinnedState) 0 = heap pinnedState 0 \<and>
        px (heap (relaxStick pinStickRev pinnedState) 1) = 165 / 2 \<and>
        py (heap (relaxStick pinStickRev pinnedState) 1) = 0"
    using relaxStick_one_pinned [OF a' b'] p
    by (simp add: Let_def pinStickRev_def pinnedState_dist) (simp add: pinnedState_points createPoint_def)
  show ?thesis using p f r by (simp add: pinnedState_dist)
qed

text \<open>
  C2 as stated fails: with the rear wheel pinned, the front wheel 85 units away and a rest
  length of 80, the code moves the front wheel to x = 82.5, the entire correction would
  move it to x = 80.
\<close>

theorem relaxStick_entire_correction_counterexample:
  "pinned (heap pinnedState (p1 pinStick)) \<and> \<not> pinned (heap pinnedState (p2 pinStick)) \<and>
   px (heap (relaxStick pinStick pinnedState) (p2 pinStick)) = 165 / 2 \<and>
   px (heap (relaxStick_spec pinStick pinnedState) (p2 pinStick)) = 80"
  by (simp add: relaxStick_def relaxStick_spec_def Let_def pinStick_def pinnedState_dist heap_modify)
    (simp add: pinnedState_points createPoint_def)

text \<open>
  C7 (as amended). A pinned point is the same object after the Verlet integration and
  after any number of constraint-relaxation passes as before them, whatever the input
  flags; through the control impulses as well, its position is unchanged when none of
  left, right and space is held (up and down edit \<open>oldx\<close> only).
\<close>

theorem pinned_position_invariant:
  assumes "pinned (heap s a)"
  shows "heap (integrate P s) a = heap s a \<and>
         heap (relaxSticks s) a = heap s a \<and>
         heap ((relaxSticks ^^ n) (integrate P (applyControls P s))) a
           = heap (applyControls P s) a \<and>
         (\<not> left (keys s) \<and> \<not> right (keys s) \<and> \<not> space (keys s) \<longrightarrow>
            px (heap ((relaxSticks ^^ n) (integrate P (applyControls P s))) a) = px (heap s a) \<and>
            py (heap ((relaxSticks ^^ n) (integrate P (applyControls P s))) a) = py (heap s a))"
proof -
  have c: "pinned (heap (applyControls P s) a)"
    using assms by (simp add: applyControls_pinned)
  then have i: "heap (integrate P (applyControls P s)) a = heap (applyControls P s) a"
    by (rule integrate_pinned)
  then have "pinned (heap (integrate P (applyControls P s)) a)" using c by simp
  then have "heap ((relaxSticks ^^ n) (integrate P (applyControls P s))) a
      = heap (applyControls P s) a"
    using i by (simp add: funpow_relaxSticks_pinned)
  then show ?thesis
    using assms applyControls_position [of s P a]
    by (simp add: integrate_pinned relaxSticks_pinned)
qed

theorem pinned_position_invariant_witness:
  "pinned (heap pinnedState 0) \<and>
   \<not> left (keys pinnedState) \<and> \<not> right (keys pinnedState) \<and> \<not> space (keys pinnedState) \<and>
   px (heap ((relaxSticks ^^ 3) (integrate testConstants (applyControls testConstants pinnedState))) 0) = 0 \<and>
   py (heap ((relaxSticks ^^ 3) (integrate testConstants (applyControls testConstants pinnedState))) 0) = 0"
proof -
  have a: "pinned (heap pinnedState 0)"
    by (simp add: pinnedState_def eval_defs)
  have k: "\<not> left (keys pinnedState) \<and> \<not> right (keys pinnedState) \<and> \<not> space (keys pinnedState)"
    by (simp add: pinnedState_def eval_defs)
  have z: "px (heap pinnedState 0) = 0 \<and> py (heap pinnedState 0) = 0"
    by (simp add: pinnedState_def eval_defs)
  have "px (heap ((relaxSticks ^^ 3) (integrate testConstants
              (applyControls testConstants pinnedState))) 0) = px (heap pinnedState 0) \<and>
        py (heap ((relaxSticks ^^ 3) (integrate testConstants
              (applyControls testConstants pinnedState))) 0) = py (heap pinnedState 0)"
    using pinned_position_invariant [OF a, of testConstants 3] k by blast
  then show ?thesis using a k z by simp
qed

text \<open>
  C7 as stated fails: with the rear wheel pinned and the lean-back key held, the control
  impulse moves the rear wheel from y = 0 to y = 1, and integration and relaxation leave
  it there.
\<close>

theorem pinned_position_counterexample:
  "pinned (heap leanState 0) \<and>
   py (heap leanState 0) = 0 \<and>
   py (heap (relaxSticks (integrate testConstants (applyControls testConstants leanState))) 0) = 1"
proof -
  have "heap (relaxSticks (integrate testConstants (applyControls testConstants leanState))) 0
      = heap (applyControls testConstants leanState) 0"
    using leanState_pinned by (simp add: relaxSticks_pinned integrate_pinned)
  moreover have "py (heap (applyControls testConstants leanState) 0) = 1"
    by (simp add: leanState_def pinnedState_def applyControls_def modify_def Let_def
        restState_def restHeap_def createPoint_def testConstants_def)
  moreover have "pinned (heap leanState 0) \<and> py (heap leanState 0) = 0"
    by (simp add: leanState_def pinnedState_def restState_def restHeap_def createPoint_def)
  ultimately show ?thesis by simp
qed

text \<open>
  C5 (as amended). In one integration step a non-pinned point of the point list (which
  holds every point once) gets: previous position := position, x := x + (x - oldx) *
  FRICTION, y := y + (y - oldy) * FRICTION + GRAVITY, all read before the step. The
  vertical velocity is added once.
\<close>

theorem integrate_formula:
  assumes "distinct (points s)" and "a \<in> set (points s)" and "\<not> pinned (heap s a)"
  shows "heap (integrate P s) a =
           (heap s a)
             \<lparr>oldx := px (heap s a),
              oldy := py (heap s a),
              px := px (heap s a) + (px (heap s a) - oldx (heap s a)) * FRICTION P,
              py := py (heap s a) + (py (heap s a) - oldy (heap s a)) * FRICTION P + GRAVITY P\<rparr>"
  using assms by (simp add: integrate_point integratePoint_def Let_def)

theorem integrate_formula_witness:
  "distinct (points sinkState) \<and> 0 \<in> set (points sinkState) \<and> \<not> pinned (heap sinkState 0) \<and>
   px (heap (integrate testConstants sinkState) 0) = 0 \<and>
   py (heap (integrate testConstants sinkState) 0) = 4381 / 2 \<and>
   oldx (heap (integrate testConstants sinkState) 0) = 0 \<and>
   oldy (heap (integrate testConstants sinkState) 0) = 2190"
proof -
  have d: "distinct (points sinkState)" by (simp add: sinkState_points)
  have m: "0 \<in> set (points sinkState)" by (simp add: sinkState_points)
  have n: "\<not> pinned (heap sinkState 0)" by (simp add: sinkState_points createPoint_def)
  show ?thesis
    using integrate_formula [OF d m n, of testConstants] d m n
    by (simp add: sinkState_points createPoint_def testConstants_def)
qed

text \<open>
  C5 as stated fails: the sequence of the specification adds the velocity to the position
  and then the vertical velocity once more. A point at y = 1 that came from y = 0 is
  moved by the code to y = 2.5 and by the stated sequence to y = 3.5.
\<close>

theorem integrate_spec_formula_counterexample:
  "\<not> pinned sinkingPoint \<and>
   py sinkingPoint = 1 \<and> oldy sinkingPoint = 0 \<and>
   py (integratePoint testConstants sinkingPoint) = 5 / 2 \<and>
   py (integratePoint_spec testConstants sinkingPoint) = 7 / 2"
  by (simp add: sinkingPoint_def createPoint_def integratePoint_def integratePoint_spec_def
      testConstants_def Let_def)

text \<open>
  C6 (as amended). With up held and none of down, left, right, space, the control
  impulse and the integration of a physics step give the rear wheel the velocity
  \<open>x - oldx = (x0 - oldx0 + WHEEL_SPEED) * FRICTION\<close> in terms of its values \<open>x0\<close>,
  \<open>oldx0\<close> before the step: a positive velocity whenever FRICTION is positive and the
  velocity before was above \<open>- WHEEL_SPEED\<close>, in every step in which up is held.
\<close>

theorem accelerate_velocity:
  assumes "up (keys s)" and "\<not> down (keys s)" and "\<not> left (keys s)" and "\<not> right (keys s)"
    and "\<not> space (keys s)"
    and "distinct (points s)" and "rw (bike s) \<in> set (points s)"
    and "\<not> pinned (heap s (rw (bike s)))"
  shows "(let p = heap s (rw (bike s));
              q = heap (integrate P (applyControls P s)) (rw (bike s))
          in px q - oldx q = (px p - oldx p + WHEEL_SPEED P) * FRICTION P \<and>
             (0 < FRICTION P \<and> - WHEEL_SPEED P < px p - oldx p \<longrightarrow> 0 < px q - oldx q))"
proof -
  let ?c = "modify (rw (bike s)) (\<lambda>p. p\<lparr>oldx := oldx p - WHEEL_SPEED P\<rparr>) s"
  have c: "applyControls P s = ?c" using assms(1-5) by (rule applyControls_up_only)
  have "heap (integrate P ?c) (rw (bike s)) = integratePoint P (heap ?c (rw (bike s)))"
    using assms(6,7) by (simp add: integrate_point)
  then have e: "px (heap (integrate P ?c) (rw (bike s))) - oldx (heap (integrate P ?c) (rw (bike s)))
      = (px (heap s (rw (bike s))) - oldx (heap s (rw (bike s))) + WHEEL_SPEED P) * FRICTION P"
    using assms(8) by (simp add: integratePoint_def Let_def heap_modify algebra_simps)
  have "0 < (v + WHEEL_SPEED P) * FRICTION P" if "0 < FRICTION P" "- WHEEL_SPEED P < v" for v
    using that by simp
  then show ?thesis using e unfolding c Let_def by simp
qed

theorem accelerate_velocity_witness:
  "up (keys upState) \<and> \<not> down (keys upState) \<and> \<not> left (keys upState) \<and>
   \<not> right (keys upState) \<and> \<not> space (keys upState) \<and>
   0 < FRICTION testConstants \<and> 0 < WHEEL_SPEED testConstants \<and>
   px (heap upState (rw (bike upState))) - oldx (heap upState (rw (bike upState))) = 0 \<and>
   px (heap (integrate testConstants (applyControls testConstants upState)) (rw (bike upState)))
     - oldx (heap (integrate testConstants (applyControls testConstants upState)) (rw (bike upState)))
     = 1"
proof -
  have z: "px (heap upState (rw (bike upState))) - oldx (heap upState (rw (bike upState))) = 0"
    by (simp add: upState_def restState_def restHeap_def createPoint_def)
  have "px (heap (integrate testConstants (applyControls testConstants upState)) (rw (bike upState)))
     - oldx (heap (integrate testConstants (applyControls testConstants upState)) (rw (bike upState)))
     = (px (heap upState (rw (bike upState))) - oldx (heap upState (rw (bike upState)))
        + WHEEL_SPEED testConstants) * FRICTION testConstants"
    using accelerate_velocity [OF upState_facts, of testConstants] by (simp add: Let_def)
  then show ?thesis using z upState_facts(1-5) by (simp add: testConstants_def)
qed

text \<open>
  C6 as stated fails: for the bike at rest with only up held, after one whole physics
  step the rear wheel's \<open>x - oldx\<close> is 1, not negative.
\<close>

theorem accelerate_negative_counterexample:
  "up (keys upState) \<and> \<not> down (keys upState) \<and> \<not> left (keys upState) \<and>
   \<not> right (keys upState) \<and> \<not> space (keys upState) \<and> \<not> enter (keys upState) \<and>
   status upState = PLAYING \<and>
   \<not> isl (updatePhysics testConstants upState) \<and>
   status (projr (updatePhysics testConstants upState)) = PLAYING \<and>
   px (heap (projr (updatePhysics testConstants upState)) (rw (bike upState)))
     - oldx (heap (projr (updatePhysics testConstants upState)) (rw (bike upState))) = 1"
  by (simp add: eval_defs upState_def)




text \<open>
  C4 (as amended). If a physics step is entered with status PLAYING and, at one of its
  collision passes (the pass after \<open>k\<close> complete ones, \<open>k < ITERATIONS\<close>), the head's y
  exceeds \<open>terrain[0].y + 2000\<close>, the step returns with status DEAD.
\<close>

theorem head_fall_dies:
  assumes "status s = PLAYING"
    and "k < ITERATIONS P"
    and "relaxCollide P k (integrate P (applyControls P s)) = Inr t"
    and "terrain s = v0 # vs"
    and "py (heap (relaxSticks t) (head (bike s))) > vy v0 + 2000"
  shows "\<exists>s'. updatePhysics P s = Inr s' \<and> status s' = DEAD"
proof -
  let ?x = "integrate P (applyControls P s)"
  have x: "keeps s ?x"
    using keeps_applyControls keeps_integrate by (rule keeps_trans)
  then have tx: "terrain ?x = v0 # vs" using assms(4) by (simp add: keeps_def)
  obtain t' where t': "relaxCollide P k ?x = Inr t'" "keeps ?x t'"
    using relaxCollide_keeps [OF tx] by blast
  then have kt: "keeps s t" using assms(3) x by (auto intro: keeps_trans)
  let ?u = "relaxSticks t"
  have ku: "keeps s ?u" using kt keeps_relaxSticks by (rule keeps_trans)
  have u1: "terrain ?u = v0 # vs" using ku assms(4) by (simp add: keeps_def)
  have u2: "status ?u = PLAYING \<or> status ?u = DEAD" using ku assms(1) by (simp add: keeps_def)
  have u3: "py (heap ?u (head (bike ?u))) > vy v0 + 2000"
    using ku assms(5) by (simp add: keeps_def)
  obtain d where d: "checkCollisions P ?u = Inr d" "keeps ?u d" "status d = DEAD"
    using checkCollisions_fall [OF u1 u2 u3] by blast
  have "terrain d = v0 # vs" using d(2) u1 by (simp add: keeps_def)
  then obtain e where e: "relaxCollide P (ITERATIONS P - Suc k) d = Inr e" "keeps d e"
    using relaxCollide_keeps by blast
  have se: "status e = DEAD" using e(2) d(3) by (auto simp add: keeps_def)
  have "ITERATIONS P = k + Suc (ITERATIONS P - Suc k)" using assms(2) by simp
  then have "relaxCollide P (ITERATIONS P) ?x =
      (case relaxCollide P k ?x of Inl e \<Rightarrow> Inl e
       | Inr t \<Rightarrow> relaxCollide P (Suc (ITERATIONS P - Suc k)) t)"
    using relaxCollide_add [of P k "Suc (ITERATIONS P - Suc k)" ?x] by simp
  then have "relaxCollide P (ITERATIONS P) ?x = Inr e"
    using assms(3) d(1) e(1) by simp
  then have "updatePhysics P s = Inr (checkGameplay e)"
    using assms(1) by (simp add: updatePhysics_def)
  moreover have "status (checkGameplay e) = DEAD"
    using se by (simp add: checkGameplay_status_not_playing)
  ultimately show ?thesis by simp
qed

theorem head_fall_dies_witness:
  "status deepState = PLAYING \<and>
   0 < ITERATIONS testConstants \<and>
   py (heap (relaxSticks (integrate testConstants (applyControls testConstants deepState)))
        (head (bike deepState))) = 4411 / 2 \<and>
   vy (hd (terrain deepState)) + 2000 = 2100 \<and>
   (case updatePhysics testConstants deepState of Inl e \<Rightarrow> False | Inr s' \<Rightarrow> status s' = DEAD)"
proof -
  have i: "0 < ITERATIONS testConstants" by (simp add: testConstants_def)
  have r: "relaxCollide testConstants 0 (integrate testConstants (applyControls testConstants deepState))
      = Inr (integrate testConstants (applyControls testConstants deepState))"
    by simp
  have h: "py (heap (relaxSticks (integrate testConstants (applyControls testConstants deepState)))
        (head (bike deepState))) > vy \<lparr>vx = - 1000, vy = 100\<rparr> + 2000"
    by (simp add: deepState_facts)
  have "\<exists>s'. updatePhysics testConstants deepState = Inr s' \<and> status s' = DEAD"
    using head_fall_dies [OF deepState_facts(1) i r deepState_facts(2) h] .
  then have "case updatePhysics testConstants deepState of
      Inl e \<Rightarrow> False | Inr s' \<Rightarrow> status s' = DEAD"
    by auto
  then show ?thesis using i by (simp add: deepState_facts)
qed

text \<open>
  C4 as stated fails: in \<open>sinkState\<close> the rear wheel is below the fall line before and
  after the physics step, the head is above it, and the status stays PLAYING.
\<close>

theorem any_point_fall_counterexample:
  "status sinkState = PLAYING \<and>
   py (heap sinkState (rw (bike sinkState))) > vy (hd (terrain sinkState)) + 2000 \<and>
   \<not> isl (updatePhysics testConstants sinkState) \<and>
   status (projr (updatePhysics testConstants sinkState)) = PLAYING \<and>
   py (heap (projr (updatePhysics testConstants sinkState)) (rw (bike sinkState)))
     > vy (hd (terrain sinkState)) + 2000"
  by (simp add: sinkState_def lowerHeap_def eval_defs)

text \<open>
  C8 (as amended). The terrain that \<open>initLevel\<close> builds has \<open>TERRAIN_SEGMENTS + 3\<close>
  vertices. Its first vertex is a deep anchor at y = height + 2000 with the x of the
  start vertex (0, not 500 less), its second the start vertex (0, height - 200), its last
  a deep anchor at y = height + 2000 and 500 units beyond the x of the last generated
  vertex, where the flower stands. For a height that is not negative every vertex between
  the two anchors lies above y = height + 2000, so the anchors are exactly two; and when
  the random source returns no negative number, x does not decrease along the vertices.
\<close>

theorem level_terrain_anchors:
  "(let t = terrain (initLevel P rnd w h st s); n = TERRAIN_SEGMENTS P
    in length t = n + 3 \<and>
       t ! 0 = \<lparr>vx = 0, vy = h + 2000\<rparr> \<and>
       t ! 1 = \<lparr>vx = 0, vy = h - 200\<rparr> \<and>
       t ! (n + 2) = \<lparr>vx = vx (t ! (n + 1)) + 500, vy = h + 2000\<rparr> \<and>
       fx (flower (initLevel P rnd w h st s)) = vx (t ! (n + 1)) \<and>
       (0 \<le> h \<longrightarrow> (\<forall>i. 0 < i \<and> i < n + 2 \<longrightarrow> vy (t ! i) < h + 2000)) \<and>
       ((\<forall>k. 0 \<le> rnd k) \<longrightarrow> sorted (map vx t)))"
proof -
  let ?g = "fold (genSegment rnd h) [0..<TERRAIN_SEGMENTS P] (genStart h)"
  let ?n = "TERRAIN_SEGMENTS P"
  let ?t = "g_terrain ?g @ [\<lparr>vx = tX ?g + 500, vy = h + 2000\<rparr>]"
  have inv: "genInv h rnd ?n ?g" by (rule genInv_loop)
  have len: "length (g_terrain ?g) = ?n + 2" using inv by (simp add: genInv_def)
  have a: "length ?t = ?n + 3" using len by simp
  have b: "?t ! 0 = \<lparr>vx = 0, vy = h + 2000\<rparr>" "?t ! 1 = \<lparr>vx = 0, vy = h - 200\<rparr>"
    using inv len by (simp_all add: genInv_def nth_append)
  have c: "?t ! (?n + 1) = \<lparr>vx = tX ?g, vy = tY ?g\<rparr>"
    using inv len by (simp add: genInv_def nth_append)
  have d: "?t ! (?n + 2) = \<lparr>vx = tX ?g + 500, vy = h + 2000\<rparr>"
    using len by (simp add: nth_append)
  have e: "vy (?t ! i) < h + 2000" if "0 \<le> h" "0 < i" "i < ?n + 2" for i
    using inv len that by (simp add: genInv_def nth_append)
  have f: "sorted (map vx ?t)" if "\<forall>k. 0 \<le> rnd k"
    using inv that by (auto simp add: genInv_def sorted_append)
  show ?thesis
    unfolding Let_def initLevel_terrain using a b c d e f
    by (simp del: One_nat_def) 
qed

theorem level_terrain_anchors_witness:
  "(0::real) \<le> 600 \<and> 0 \<le> rndHalf 0 \<and>
   length (terrain (initLevel testConstants rndHalf 800 600 PLAYING restState)) = 5 \<and>
   terrain (initLevel testConstants rndHalf 800 600 PLAYING restState) ! 0
     = \<lparr>vx = 0, vy = 2600\<rparr> \<and>
   terrain (initLevel testConstants rndHalf 800 600 PLAYING restState) ! 4
     = \<lparr>vx = vx (terrain (initLevel testConstants rndHalf 800 600 PLAYING restState) ! 3) + 500,
        vy = 2600\<rparr> \<and>
   vy (terrain (initLevel testConstants rndHalf 800 600 PLAYING restState) ! 2) < 2600 \<and>
   sorted (map vx (terrain (initLevel testConstants rndHalf 800 600 PLAYING restState)))"
proof -
  have r: "\<forall>k. 0 \<le> rndHalf k" by (simp add: rndHalf_def)
  have n: "TERRAIN_SEGMENTS testConstants = 2" by (simp add: testConstants_def)
  show ?thesis
    using level_terrain_anchors [of testConstants rndHalf 800 600 PLAYING restState] r
    by (simp add: Let_def n)
qed

text \<open>
  C8 as stated fails: in the level generated from the constant random source the first
  anchor has x = 0, which is the x of the start vertex and not 500 less.
\<close>

theorem start_anchor_offset_counterexample:
  "vx (terrain (initLevel testConstants rndHalf 800 600 PLAYING restState) ! 0) = 0 \<and>
   vx (terrain (initLevel testConstants rndHalf 800 600 PLAYING restState) ! 1) = 0 \<and>
   vx (terrain (initLevel testConstants rndHalf 800 600 PLAYING restState) ! 0)
     \<noteq> vx (terrain (initLevel testConstants rndHalf 800 600 PLAYING restState) ! 1) - 500"
  by (simp add: testLevel_terrain)

end
